theory Spec2Isabelle
  imports Main "HOL-Library.Sublist"
begin

section \<open>JavaScript values\<close>

text \<open>
  The scripts pass plain JavaScript values around: option bags, Newman's summary, the
  JSON body of a token response. A value is modelled by \<open>jsval\<close>. Numbers are the
  integers, taken exactly, together with \<open>NaN\<close> (what \<open>parseInt\<close> can return);
  fractions, infinities and the rounding of doubles beyond \<open>2^53\<close> are left out.

  An object is the sequence of its property definitions in evaluation order, as an
  object literal lists them. Reading a property takes the \<^emph>\<open>last\<close> definition of
  the key, which is what JavaScript does for \<open>{a: 1, a: 2}\<close> and for a spread that
  follows computed fields.
\<close>

datatype jsval =
    JUndefined
  | JNull
  | JBool bool
  | JNum int
  | JNaN
  | JStr string
  | JArr "jsval list"
  | JObj "(string \<times> jsval) list"

type_synonym jsobj = "(string \<times> jsval) list"

definition obj_get :: "jsobj \<Rightarrow> string \<Rightarrow> jsval option" where
  "obj_get obj k = map_of (rev obj) k"

definition has_key :: "jsobj \<Rightarrow> string \<Rightarrow> bool" where
  "has_key obj k = (k \<in> set (map fst obj))"

text \<open>\<open>obj.k\<close>: the value of the property, \<open>undefined\<close> when the object has none.\<close>

definition get_prop :: "jsobj \<Rightarrow> string \<Rightarrow> jsval" where
  "get_prop obj k = (case obj_get obj k of None \<Rightarrow> JUndefined | Some v \<Rightarrow> v)"

text \<open>\<open>{...a, ...b}\<close>: the definitions of \<open>a\<close>, then those of \<open>b\<close>.\<close>

definition spread :: "jsobj \<Rightarrow> jsobj \<Rightarrow> jsobj" where
  "spread a b = a @ b"

text \<open>ToBoolean, and the operator \<open>a || b\<close>, which yields \<open>a\<close> itself when it is truthy.\<close>

fun truthy :: "jsval \<Rightarrow> bool" where
  "truthy JUndefined = False"
| "truthy JNull = False"
| "truthy (JBool b) = b"
| "truthy (JNum n) = (n \<noteq> 0)"
| "truthy JNaN = False"
| "truthy (JStr s) = (s \<noteq> [])"
| "truthy (JArr xs) = True"
| "truthy (JObj kvs) = True"

definition js_or :: "jsval \<Rightarrow> jsval \<Rightarrow> jsval" where
  "js_or a b = (if truthy a then a else b)"

text \<open>A parameter with a default value takes the default when \<open>undefined\<close> arrives.\<close>

definition default_param :: "jsval \<Rightarrow> jsval \<Rightarrow> jsval" where
  "default_param v d = (if v = JUndefined then d else v)"

text \<open>
  Reading a property of a value, \<open>v.k\<close>: it throws a \<open>TypeError\<close> when the value is
  \<open>undefined\<close> or \<open>null\<close>, gives the property of an object, and gives \<open>undefined\<close>
  for the other values, none of which has one of the properties read by the scripts.
\<close>

datatype js_error = JsError (err_name: string) (err_message: string)

definition member :: "jsval \<Rightarrow> string \<Rightarrow> js_error + jsval" where
  "member v k =
     (case v of
        JUndefined \<Rightarrow>
          Inl (JsError ''TypeError'' (''Cannot read properties of undefined (reading '' @ k @ '')''))
      | JNull \<Rightarrow>
          Inl (JsError ''TypeError'' (''Cannot read properties of null (reading '' @ k @ '')''))
      | JObj kvs \<Rightarrow> Inr (get_prop kvs k)
      | _ \<Rightarrow> Inr JUndefined)"

subsection \<open>Strings of the command line: \<open>toLowerCase\<close> and \<open>parseInt\<close>\<close>

text \<open>
  The strings that the scripts only pass on or print (paths, names, messages) are Isabelle
  strings: the bytes of their UTF-8 encoding. The arguments of the command line are
  inspected character by character, by \<open>toLowerCase\<close> and by \<open>parseInt\<close>; they are
  lists of Unicode code points. \<open>ascii\<close> reads a literal of the source as such a list
  and \<open>utf8\<close> gives the bytes of one.
\<close>

type_synonym ustring = "nat list"

definition ascii :: "string \<Rightarrow> ustring" where
  "ascii s = map of_char s"

definition utf8_char :: "nat \<Rightarrow> string" where
  "utf8_char c =
     (if c < 128 then [char_of c]
      else if c < 2048 then [char_of (192 + c div 64), char_of (128 + c mod 64)]
      else if 55296 \<le> c \<and> c < 57344 then [char_of (239::nat), char_of (191::nat), char_of (189::nat)]
      else if c < 65536 then
        [char_of (224 + c div 4096), char_of (128 + c div 64 mod 64), char_of (128 + c mod 64)]
      else
        [char_of (240 + c div 262144), char_of (128 + c div 4096 mod 64),
         char_of (128 + c div 64 mod 64), char_of (128 + c mod 64)])"

definition utf8 :: "ustring \<Rightarrow> string" where
  "utf8 s = concat (map utf8_char s)"

text \<open>
  \<open>String.prototype.toLowerCase\<close> maps every code point of the string to its lower-case
  mapping in the Unicode character database, which for a few code points depends on the
  neighbours (the final sigma). The letters \<open>A\<close> to \<open>Z\<close> go to \<open>a\<close> to \<open>z\<close>
  and the other ASCII code points stay. The database is not part of the scripts: the
  mapping of the code points from 128 on is the parameter \<open>casing\<close>, which gives for
  a string and a position in it the code points that replace the one at that position.
\<close>

definition ascii_lower :: "nat \<Rightarrow> nat" where
  "ascii_lower c = (if 65 \<le> c \<and> c \<le> 90 then c + 32 else c)"

type_synonym casing = "ustring \<Rightarrow> nat \<Rightarrow> ustring"

definition toLowerCase :: "casing \<Rightarrow> ustring \<Rightarrow> ustring" where
  "toLowerCase casing s =
     concat (map (\<lambda>i. if s ! i < 128 then [ascii_lower (s ! i)] else casing s i)
               [0..<length s])"

text \<open>
  The white space that \<open>parseInt\<close> skips: the code points of \<open>WhiteSpace\<close> (tab,
  vertical tab, form feed, the byte order mark and the space separators of Unicode) and
  of \<open>LineTerminator\<close>.
\<close>

definition is_space :: "nat \<Rightarrow> bool" where
  "is_space c =
     (c \<in> {9, 10, 11, 12, 13, 32, 160, 5760, 8232, 8233, 8239, 8287, 12288, 65279}
      \<or> (8192 \<le> c \<and> c \<le> 8202))"

definition digit_val :: "nat \<Rightarrow> nat option" where
  "digit_val c =
     (if 48 \<le> c \<and> c \<le> 57 then Some (c - 48)
      else if 97 \<le> c \<and> c \<le> 122 then Some (c - 87)
      else if 65 \<le> c \<and> c \<le> 90 then Some (c - 55)
      else None)"

definition is_digit :: "nat \<Rightarrow> nat \<Rightarrow> bool" where
  "is_digit radix c = (case digit_val c of None \<Rightarrow> False | Some d \<Rightarrow> d < radix)"

fun digits_value :: "nat \<Rightarrow> nat \<Rightarrow> ustring \<Rightarrow> nat" where
  "digits_value radix acc [] = acc"
| "digits_value radix acc (c # cs) =
     digits_value radix (acc * radix + (case digit_val c of None \<Rightarrow> 0 | Some d \<Rightarrow> d)) cs"

text \<open>
  \<open>parseInt(s)\<close> with no radix: leading white space is dropped, then an optional sign,
  then an optional \<open>0x\<close> or \<open>0X\<close> (which selects radix 16); the longest prefix of
  digits is the value, and no digit at all gives \<open>NaN\<close>.
\<close>

definition parseInt_string :: "ustring \<Rightarrow> jsval" where
  "parseInt_string s =
     (let s1 = dropWhile is_space s;
          neg = (s1 \<noteq> [] \<and> hd s1 = 45);
          s2 = (if s1 \<noteq> [] \<and> (hd s1 = 45 \<or> hd s1 = 43) then tl s1 else s1);
          hex = (take 2 s2 = ascii ''0x'' \<or> take 2 s2 = ascii ''0X'');
          radix = (if hex then 16 else 10);
          s3 = (if hex then drop 2 s2 else s2);
          z = takeWhile (is_digit radix) s3
      in if z = [] then JNaN
         else JNum ((if neg then - 1 else 1) * int (digits_value radix 0 z)))"

text \<open>\<open>parseInt(args[i])\<close>: a missing argument is \<open>undefined\<close>, whose string has no digit.\<close>

definition parseInt :: "ustring option \<Rightarrow> jsval" where
  "parseInt a = (case a of None \<Rightarrow> JNaN | Some s \<Rightarrow> parseInt_string s)"

section \<open>The Newman runner (scripts/newman_runner.js)\<close>

text \<open>
  The runner object holds four directories, which its constructor derives from the
  directory of the script (it also creates the reports directory when that is missing).
  \<open>path.join\<close> belongs to the runtime, not to the scripts: it is carried along as
  \<open>pathJoin\<close>, the function that joins a directory and a file name.
\<close>

record runner =
  collectionsDir :: string
  environmentsDir :: string
  dataDir :: string
  reportsDir :: string
  pathJoin :: "string \<Rightarrow> string \<Rightarrow> string"

text \<open>\<open>new Date().toISOString().replace(/[:.]/g, '-')\<close>, for the ISO string of the clock.\<close>

definition timestamp_of :: "string \<Rightarrow> string" where
  "timestamp_of now = map (\<lambda>c. if c = CHR '':'' \<or> c = CHR ''.'' then CHR ''-'' else c) now"

definition collectionPath :: "runner \<Rightarrow> string" where
  "collectionPath r = pathJoin r (collectionsDir r) ''Gmail_API_E2E_Tests.postman_collection.json''"

definition environmentPath :: "runner \<Rightarrow> string \<Rightarrow> string" where
  "environmentPath r environment =
     pathJoin r (environmentsDir r) (''Gmail_API_'' @ environment @ ''.postman_environment.json'')"

definition dataPath :: "runner \<Rightarrow> string" where
  "dataPath r = pathJoin r (dataDir r) ''test_data.csv''"

definition htmlReportPath :: "runner \<Rightarrow> string \<Rightarrow> string" where
  "htmlReportPath r now = pathJoin r (reportsDir r) (''gmail-e2e-report-'' @ timestamp_of now @ ''.html'')"

definition jsonReportPath :: "runner \<Rightarrow> string \<Rightarrow> string" where
  "jsonReportPath r now = pathJoin r (reportsDir r) (''gmail-e2e-report-'' @ timestamp_of now @ ''.json'')"

definition junitReportPath :: "runner \<Rightarrow> string \<Rightarrow> string" where
  "junitReportPath r now = pathJoin r (reportsDir r) (''gmail-e2e-junit-'' @ timestamp_of now @ ''.xml'')"

text \<open>
  The object literal \<open>runOptions\<close> of \<open>runGmailTests\<close>: the computed fields, in the
  order of the source, followed by the spread of the caller's options.
\<close>

definition computedFields :: "runner \<Rightarrow> string \<Rightarrow> jsobj \<Rightarrow> string \<Rightarrow> jsobj" where
  "computedFields r environment options now =
     [(''collection'', JStr (collectionPath r)),
      (''environment'', JStr (environmentPath r environment)),
      (''data'', JStr (dataPath r)),
      (''reporters'', JArr [JStr ''html'', JStr ''json'', JStr ''junit'', JStr ''cli'']),
      (''reporter'', JObj
         [(''html'', JObj [(''export'', JStr (htmlReportPath r now))]),
          (''json'', JObj [(''export'', JStr (jsonReportPath r now))]),
          (''junit'', JObj [(''export'', JStr (junitReportPath r now))])]),
      (''iterationCount'', js_or (get_prop options ''iterations'') (JNum 1)),
      (''delayRequest'', js_or (get_prop options ''delay'') (JNum 1000)),
      (''timeout'', js_or (get_prop options ''timeout'') (JNum 30000)),
      (''insecure'', JBool False),
      (''bail'', js_or (get_prop options ''bail'') (JBool False)),
      (''color'', JStr ''on'')]"

definition runOptions :: "runner \<Rightarrow> string \<Rightarrow> jsobj \<Rightarrow> string \<Rightarrow> jsobj" where
  "runOptions r environment options now =
     spread (computedFields r environment options now) options"

subsection \<open>Newman's summary and the console\<close>

text \<open>
  \<open>newman.run\<close> is the library's entry point; it calls back with an error or with a
  summary. The library is a parameter of the model: a function from the run options to
  what the callback receives. A summary has \<open>run.stats\<close>, \<open>run.timings\<close> and
  \<open>run.failures\<close>; the \<open>error\<close> and the \<open>source\<close> of a failure are taken as
  they come, and either may be \<open>undefined\<close>.
\<close>

record counter =
  total :: int
  failed :: int

record run_stats =
  stats_iterations :: counter
  stats_requests :: counter
  stats_assertions :: counter

record failure =
  failure_error :: jsval
  failure_source :: jsval

record summary =
  stats :: run_stats
  responseAverage :: jsval
  failures :: "failure list"

type_synonym newman = "jsobj \<Rightarrow> js_error + summary"

text \<open>
  A console line is its template text (without the pictographs of the source) and the
  values interpolated into it, in order; \<open>console.error\<close> lines are kept apart.
\<close>

datatype log_line = Log string "jsval list" | LogError string "jsval list"

definition rule80 :: log_line where
  "rule80 = Log (replicate 80 (CHR ''='')) []"

text \<open>
  The promise of a run is resolved with the summary, rejected with Newman's error, or left
  unsettled: when the callback throws, neither \<open>resolve\<close> nor \<open>reject\<close> is called and
  the exception goes to Newman, which called the callback.
\<close>

datatype settlement = Resolved summary | Rejected js_error | Unsettled js_error

record run_result =
  console :: "log_line list"
  settled :: settlement

definition logged_before :: "log_line list \<Rightarrow> run_result \<Rightarrow> run_result" where
  "logged_before ls res = res\<lparr>console := ls @ console res\<rparr>"

definition start_log :: "runner \<Rightarrow> string \<Rightarrow> log_line list" where
  "start_log r environment =
     [Log ''Starting Gmail API E2E Tests...'' [],
      Log ''Collection: ${}'' [JStr (collectionPath r)],
      Log ''Environment: ${}'' [JStr (environmentPath r environment)],
      Log ''Data: ${}'' [JStr (dataPath r)],
      Log ''Reports will be saved to: ${}'' [JStr (reportsDir r)],
      rule80]"

definition stats_log :: "summary \<Rightarrow> log_line list" where
  "stats_log s =
     [Log ''Total Iterations: ${}'' [JNum (total (stats_iterations (stats s)))],
      Log ''Total Requests: ${}'' [JNum (total (stats_requests (stats s)))],
      Log ''Passed Requests: ${}''
        [JNum (total (stats_requests (stats s)) - failed (stats_requests (stats s)))],
      Log ''Failed Requests: ${}'' [JNum (failed (stats_requests (stats s)))],
      Log ''Total Assertions: ${}'' [JNum (total (stats_assertions (stats s)))],
      Log ''Passed Assertions: ${}''
        [JNum (total (stats_assertions (stats s)) - failed (stats_assertions (stats s)))],
      Log ''Failed Assertions: ${}'' [JNum (failed (stats_assertions (stats s)))]]"

text \<open>
  The body of the \<open>forEach\<close> for the failure at position \<open>index\<close>: the lines it prints,
  and the exception that ends it when \<open>failure.error\<close> or \<open>failure.source\<close> cannot be
  read. The first line is printed once the name and the message of the error are read;
  the source is read after that.
\<close>

definition failure_lines :: "nat \<Rightarrow> failure \<Rightarrow> log_line list \<times> js_error option" where
  "failure_lines index f =
     (case member (failure_error f) ''name'' of
        Inl e \<Rightarrow> ([], Some e)
      | Inr name \<Rightarrow>
          (case member (failure_error f) ''message'' of
             Inl e \<Rightarrow> ([], Some e)
           | Inr message \<Rightarrow>
               (case member (failure_source f) ''name'' of
                  Inl e \<Rightarrow> ([Log ''${}. ${}: ${}'' [JNum (int index + 1), name, message]], Some e)
                | Inr source \<Rightarrow>
                    ([Log ''${}. ${}: ${}'' [JNum (int index + 1), name, message],
                      Log ''   Source: ${}'' [js_or source (JStr ''Unknown'')]], None))))"

text \<open>\<open>summary.run.failures.forEach\<close>, from position \<open>index\<close> on: it stops at the first exception.\<close>

fun print_failures :: "nat \<Rightarrow> failure list \<Rightarrow> log_line list \<times> js_error option" where
  "print_failures index [] = ([], None)"
| "print_failures index (f # fs) =
     (case failure_lines index f of
        (ls, Some e) \<Rightarrow> (ls, Some e)
      | (ls, None) \<Rightarrow>
          (case print_failures (Suc index) fs of (ls', thrown) \<Rightarrow> (ls @ ls', thrown)))"

definition verdict_log :: "summary \<Rightarrow> log_line list \<times> js_error option" where
  "verdict_log s =
     (if length (failures s) > 0
      then (case print_failures 0 (failures s) of
              (ls, thrown) \<Rightarrow> (Log ''Test Failures:'' [] # ls, thrown))
      else ([Log ''All tests passed!'' []], None))"

definition reports_log :: "runner \<Rightarrow> string \<Rightarrow> log_line list" where
  "reports_log r now =
     [Log [] [],
      Log ''Generated Reports:'' [],
      Log ''   HTML Report: ${}'' [JStr (htmlReportPath r now)],
      Log ''   JSON Report: ${}'' [JStr (jsonReportPath r now)],
      Log ''   JUnit Report: ${}'' [JStr (junitReportPath r now)]]"

definition summary_head :: "summary \<Rightarrow> log_line list" where
  "summary_head s =
     [rule80, Log ''Test Execution Summary'' [], rule80] @ stats_log s @
     [Log ''Average Response Time: ${}ms'' [responseAverage s], rule80]"

text \<open>
  The callback that \<open>runGmailTests\<close> gives to \<open>newman.run\<close>. With an error it prints
  it and rejects. With a summary it prints the counts and the failures and only then
  the report paths and resolves; an exception while the failures are printed ends it
  before that.
\<close>

definition run_callback :: "runner \<Rightarrow> string \<Rightarrow> js_error + summary \<Rightarrow> run_result" where
  "run_callback r now answer =
     (case answer of
        Inl err \<Rightarrow>
          \<lparr>console = [LogError ''Newman run failed:'' [JStr (err_name err), JStr (err_message err)]],
           settled = Rejected err\<rparr>
      | Inr s \<Rightarrow>
          (case verdict_log s of
             (ls, Some e) \<Rightarrow> \<lparr>console = summary_head s @ ls, settled = Unsettled e\<rparr>
           | (ls, None) \<Rightarrow>
               \<lparr>console = summary_head s @ ls @ reports_log r now, settled = Resolved s\<rparr>))"

subsection \<open>\<open>runGmailTests\<close>, \<open>runSmokeTests\<close>, \<open>runPerformanceTests\<close>\<close>

text \<open>
  \<open>runGmailTests\<close> builds the run options, prints the opening lines and calls
  \<open>newman.run\<close> with the options and the callback. \<open>None\<close> for a parameter stands for
  an argument that is not passed.
\<close>

definition runGmailTests ::
  "runner \<Rightarrow> string option \<Rightarrow> jsobj option \<Rightarrow> string \<Rightarrow> newman \<Rightarrow> run_result" where
  "runGmailTests r environment_arg options_arg now newman_run =
     (let environment = (case environment_arg of None \<Rightarrow> ''Development'' | Some e \<Rightarrow> e);
          options = (case options_arg of None \<Rightarrow> [] | Some opts \<Rightarrow> opts);
          ro = runOptions r environment options now
      in logged_before (start_log r environment) (run_callback r now (newman_run ro)))"

definition smokeOptions :: jsobj where
  "smokeOptions =
     [(''folder'', JArr [JStr ''Authentication'', JStr ''Profile & User Info'']),
      (''bail'', JBool True),
      (''iterations'', JNum 1)]"

definition runSmokeTests :: "runner \<Rightarrow> string option \<Rightarrow> string \<Rightarrow> newman \<Rightarrow> run_result" where
  "runSmokeTests r environment_arg now newman_run =
     (let environment = (case environment_arg of None \<Rightarrow> ''Development'' | Some e \<Rightarrow> e)
      in logged_before [Log ''Running Gmail API Smoke Tests...'' []]
           (runGmailTests r (Some environment) (Some smokeOptions) now newman_run))"

definition performanceOptions :: "jsval \<Rightarrow> jsobj" where
  "performanceOptions iters =
     [(''iterations'', iters),
      (''delay'', JNum 500),
      (''bail'', JBool False)]"

definition runPerformanceTests ::
  "runner \<Rightarrow> string option \<Rightarrow> jsval \<Rightarrow> string \<Rightarrow> newman \<Rightarrow> run_result" where
  "runPerformanceTests r environment_arg iterations_arg now newman_run =
     (let environment = (case environment_arg of None \<Rightarrow> ''Development'' | Some e \<Rightarrow> e);
          iters = default_param iterations_arg (JNum 5)
      in logged_before [Log ''Running Gmail API Performance Tests...'' []]
           (runGmailTests r (Some environment) (Some (performanceOptions iters)) now newman_run))"

subsection \<open>The command line\<close>

text \<open>
  \<open>args\<close> is \<open>process.argv.slice(2)\<close>. \<open>args[i]\<close> is \<open>undefined\<close> past the end, and
  \<open>args[i] || d\<close> also replaces the empty string.
\<close>

definition arg :: "ustring list \<Rightarrow> nat \<Rightarrow> ustring option" where
  "arg args i = (if i < length args then Some (args ! i) else None)"

definition arg_or :: "ustring option \<Rightarrow> ustring \<Rightarrow> ustring" where
  "arg_or a d = (case a of None \<Rightarrow> d | Some s \<Rightarrow> if s = [] then d else s)"

text \<open>
  What \<open>main\<close> prints, and the code of the \<open>process.exit\<close> call it reaches, if it
  reaches one. Once the awaited run has settled, the \<open>try\<close> block ends in
  \<open>process.exit(0)\<close> and the \<open>catch\<close> block in \<open>process.exit(1)\<close>. While the promise
  stays unsettled \<open>main\<close> reaches neither, and what becomes of the process is for
  Newman and the runtime to decide, which have the exception.
\<close>

record proc_result =
  printed :: "log_line list"
  exit_code :: "int option"

definition finish :: "run_result \<Rightarrow> proc_result" where
  "finish res =
     (case settled res of
        Resolved s \<Rightarrow>
          \<lparr>printed = console res @ [Log ''Test execution completed!'' []], exit_code = Some 0\<rparr>
      | Rejected error \<Rightarrow>
          \<lparr>printed = console res @ [LogError ''Test execution failed:'' [JStr (err_message error)]],
           exit_code = Some 1\<rparr>
      | Unsettled e \<Rightarrow> \<lparr>printed = console res, exit_code = None\<rparr>)"

definition main :: "runner \<Rightarrow> casing \<Rightarrow> ustring list \<Rightarrow> string \<Rightarrow> newman \<Rightarrow> proc_result" where
  "main r casing args now newman_run =
     (let command = arg_or (arg args 0) (ascii ''full'');
          environment = utf8 (arg_or (arg args 1) (ascii ''Development''));
          selector = toLowerCase casing command
      in if selector = ascii ''smoke''
         then finish (runSmokeTests r (Some environment) now newman_run)
         else if selector = ascii ''performance''
         then (let iters = js_or (parseInt (arg args 2)) (JNum 5)
               in finish (runPerformanceTests r (Some environment) iters now newman_run))
         else finish (runGmailTests r (Some environment) None now newman_run))"

section \<open>The OAuth helper (scripts/setup_oauth.js)\<close>

record helper =
  clientId :: string
  clientSecret :: string
  redirectUri :: string
  authUrl :: string
  tokenUrl :: string
  scopes :: "string list"

text \<open>The constructor; \<open>None\<close> for the redirect URI takes the parameter's default.\<close>

definition GmailOAuthHelper :: "string \<Rightarrow> string \<Rightarrow> string option \<Rightarrow> helper" where
  "GmailOAuthHelper cid csecret redirect_arg =
     \<lparr>clientId = cid,
      clientSecret = csecret,
      redirectUri = (case redirect_arg of None \<Rightarrow> ''urn:ietf:wg:oauth:2.0:oob'' | Some u \<Rightarrow> u),
      authUrl = ''https://accounts.google.com/o/oauth2/auth'',
      tokenUrl = ''https://oauth2.googleapis.com/token'',
      scopes =
        [''https://www.googleapis.com/auth/gmail.readonly'',
         ''https://www.googleapis.com/auth/gmail.send'',
         ''https://www.googleapis.com/auth/gmail.labels'',
         ''https://www.googleapis.com/auth/gmail.modify'']\<rparr>"

text \<open>
  A call of \<open>fetch\<close>: the request it sends, and what comes back. The body is the
  \<open>URLSearchParams\<close> object, the list of its name and value pairs. A response carries
  \<open>ok\<close>, \<open>statusText\<close> and what \<open>response.json()\<close> settles to (a rejection when the
  body is not JSON).
\<close>

record http_request =
  req_method :: string
  req_url :: string
  req_headers :: "(string \<times> string) list"
  req_body :: "(string \<times> string) list"

record response =
  resp_ok :: bool
  resp_statusText :: string
  resp_json :: "js_error + jsval"

text \<open>
  The token endpoint, reached through \<open>fetch\<close>, is a parameter: given the requests sent
  so far and the present one, it rejects (\<open>Inl\<close>) or answers.
\<close>

type_synonym endpoint = "http_request list \<Rightarrow> http_request \<Rightarrow> js_error + response"

text \<open>
  Everything a method of the helper could touch: the helper object itself, the network
  (the requests sent so far), the files on disk and the console.
\<close>

record world =
  this :: helper
  network :: "http_request list"
  disk :: "(string \<times> string) list"
  stdout :: "log_line list"

definition exchange_request :: "helper \<Rightarrow> string \<Rightarrow> http_request" where
  "exchange_request h authorizationCode =
     \<lparr>req_method = ''POST'',
      req_url = tokenUrl h,
      req_headers = [(''Content-Type'', ''application/x-www-form-urlencoded'')],
      req_body =
        [(''client_id'', clientId h),
         (''client_secret'', clientSecret h),
         (''code'', authorizationCode),
         (''grant_type'', ''authorization_code''),
         (''redirect_uri'', redirectUri h)]\<rparr>"

definition refresh_request :: "helper \<Rightarrow> string \<Rightarrow> http_request" where
  "refresh_request h refreshToken =
     \<lparr>req_method = ''POST'',
      req_url = tokenUrl h,
      req_headers = [(''Content-Type'', ''application/x-www-form-urlencoded'')],
      req_body =
        [(''client_id'', clientId h),
         (''client_secret'', clientSecret h),
         (''refresh_token'', refreshToken),
         (''grant_type'', ''refresh_token'')]\<rparr>"

text \<open>
  Both methods await \<open>fetch\<close>, throw an \<open>Error\<close> when \<open>response.ok\<close> is false and
  return \<open>response.json()\<close> otherwise. \<open>Inl\<close> is the rejection of the returned promise.
\<close>

definition exchangeCodeForTokens ::
  "endpoint \<Rightarrow> string \<Rightarrow> world \<Rightarrow> (js_error + jsval) \<times> world" where
  "exchangeCodeForTokens fetch authorizationCode w =
     (let req = exchange_request (this w) authorizationCode;
          w' = w\<lparr>network := network w @ [req]\<rparr>
      in case fetch (network w) req of
           Inl e \<Rightarrow> (Inl e, w')
         | Inr resp \<Rightarrow>
             if \<not> resp_ok resp
             then (Inl (JsError ''Error'' (''Token exchange failed: '' @ resp_statusText resp)), w')
             else (resp_json resp, w'))"

definition refreshAccessToken ::
  "endpoint \<Rightarrow> string \<Rightarrow> world \<Rightarrow> (js_error + jsval) \<times> world" where
  "refreshAccessToken fetch refreshToken w =
     (let req = refresh_request (this w) refreshToken;
          w' = w\<lparr>network := network w @ [req]\<rparr>
      in case fetch (network w) req of
           Inl e \<Rightarrow> (Inl e, w')
         | Inr resp \<Rightarrow>
             if \<not> resp_ok resp
             then (Inl (JsError ''Error'' (''Token refresh failed: '' @ resp_statusText resp)), w')
             else (resp_json resp, w'))"

section \<open>Selecting requests by folder\<close>

text \<open>
  The scripts hand the folder filter to the Newman library and leave the selection of
  requests to it. A collection is its folders in order, each with its requests in order.
\<close>

record 'q folder =
  folder_name :: string
  folder_requests :: "'q list"

text \<open>
  Modelled from the spec: the Run Sequencer's test of a folder against the folder filter
  (done inside Newman, whose code is not among the scripts). A folder passes when it is
  named in the filter, and every folder passes when no filter is set.
\<close>

definition in_filter :: "string list option \<Rightarrow> 'q folder \<Rightarrow> bool" where
  "in_filter flt f =
     (case flt of None \<Rightarrow> True | Some names \<Rightarrow> folder_name f \<in> set names)"

text \<open>
  Modelled from the spec: the Run Sequencer's selected request set (computed inside Newman,
  whose code is not among the scripts). It is the requests whose containing folder is
  named in the folder filter, or all of them when no filter is set, in collection order.
  A selected request is paired with the name of its folder.
\<close>

definition selected_requests :: "string list option \<Rightarrow> 'q folder list \<Rightarrow> (string \<times> 'q) list" where
  "selected_requests flt collection =
     concat (map (\<lambda>f. map (Pair (folder_name f)) (folder_requests f))
               (filter (in_filter flt) collection))"

fun js_strings :: "jsval list \<Rightarrow> string list" where
  "js_strings [] = []"
| "js_strings (JStr s # vs) = s # js_strings vs"
| "js_strings (v # vs) = js_strings vs"

text \<open>
  Modelled from the spec: how the Run Sequencer (inside Newman, whose code is not among the
  scripts) reads its folder filter from the run options. The filter is the \<open>folder\<close>
  entry, a name or an array of names, and is unset when there is no such entry.
\<close>

definition folderFilter :: "jsobj \<Rightarrow> string list option" where
  "folderFilter ro =
     (case obj_get ro ''folder'' of
        Some (JArr vs) \<Rightarrow> Some (js_strings vs)
      | Some (JStr s) \<Rightarrow> Some [s]
      | _ \<Rightarrow> None)"

section \<open>A token cache over the helper\<close>

text \<open>
  The helper itself keeps nothing between calls. The Credential Manager of the
  specification adds a token, with the instant at which it expires, and a cache of tokens
  in front of the acquisition; the acquisition call is the helper's
  \<open>refreshAccessToken\<close>. Instants and lifetimes are in seconds.
\<close>

record token =
  access_token :: string
  token_type :: string
  expiry :: int
  obtained_with :: string

text \<open>
  Modelled from the spec: the token made from the payload of the token endpoint (no code of
  the scripts builds one). The payload is expected to have \<open>access_token\<close>,
  \<open>expires_in\<close> and \<open>token_type\<close>; the expiry instant is the issuance time plus the
  declared lifetime, and the token remembers the refresh token used to obtain it. Any other
  payload is malformed and is an \<open>AuthError\<close>.
\<close>

definition token_of_payload :: "int \<Rightarrow> string \<Rightarrow> jsval \<Rightarrow> js_error + token" where
  "token_of_payload issued refreshToken payload =
     (case payload of
        JObj kvs \<Rightarrow>
          (case (get_prop kvs ''access_token'', get_prop kvs ''expires_in'', get_prop kvs ''token_type'') of
             (JStr a, JNum lifetime, JStr ty) \<Rightarrow>
               Inr \<lparr>access_token = a, token_type = ty, expiry = issued + lifetime,
                    obtained_with = refreshToken\<rparr>
           | _ \<Rightarrow> Inl (JsError ''AuthError'' ''malformed token payload''))
      | _ \<Rightarrow> Inl (JsError ''AuthError'' ''malformed token payload''))"

text \<open>
  Modelled from the spec: \<open>acquireToken\<close> of the Credential Manager (absent from the
  scripts under that name). It exchanges a refresh token for a fresh access token at the
  token endpoint, here through the helper's \<open>refreshAccessToken\<close>, and fails with an
  \<open>AuthError\<close> on a non-success status or a malformed payload.
\<close>

definition acquireToken ::
  "endpoint \<Rightarrow> int \<Rightarrow> string \<Rightarrow> world \<Rightarrow> (js_error + token) \<times> world" where
  "acquireToken fetch now refreshToken w =
     (case refreshAccessToken fetch refreshToken w of
        (Inl e, w') \<Rightarrow> (Inl (JsError ''AuthError'' (err_message e)), w')
      | (Inr payload, w') \<Rightarrow> (token_of_payload now refreshToken payload, w'))"

text \<open>
  The Credential Manager during a run: the cache, keyed by client id and refresh token,
  and the world of the helper.
\<close>

record credential_manager =
  cache :: "string \<times> string \<Rightarrow> token option"
  cm_world :: world

text \<open>
  Modelled from the spec: the step of \<open>getValidToken\<close> that calls \<open>acquireToken\<close>
  again (absent from the scripts). The new token is kept in the cache under the client id
  and the refresh token; a failed acquisition goes to the caller and leaves the cache as
  it was.
\<close>

definition renewToken ::
  "endpoint \<Rightarrow> int \<Rightarrow> string \<Rightarrow> credential_manager \<Rightarrow>
     (js_error + token) \<times> credential_manager" where
  "renewToken fetch now refreshToken cm =
     (case acquireToken fetch now refreshToken (cm_world cm) of
        (Inl e, w') \<Rightarrow> (Inl e, cm\<lparr>cm_world := w'\<rparr>)
      | (Inr tok, w') \<Rightarrow>
          (Inr tok,
           cm\<lparr>cache := (cache cm)((clientId (this (cm_world cm)), refreshToken) \<mapsto> tok),
              cm_world := w'\<rparr>))"

text \<open>
  Modelled from the spec: \<open>getValidToken\<close> of the Credential Manager (absent from the
  scripts). It returns the cached token if its expiry is more than the safety margin in the
  future, and otherwise calls \<open>acquireToken\<close> again.
\<close>

definition getValidToken ::
  "endpoint \<Rightarrow> int \<Rightarrow> int \<Rightarrow> string \<Rightarrow> credential_manager \<Rightarrow>
     (js_error + token) \<times> credential_manager" where
  "getValidToken fetch margin now refreshToken cm =
     (case cache cm (clientId (this (cm_world cm)), refreshToken) of
        Some tok \<Rightarrow>
          if margin < expiry tok - now then (Inr tok, cm)
          else renewToken fetch now refreshToken cm
      | None \<Rightarrow> renewToken fetch now refreshToken cm)"

section \<open>Words of the claims\<close>



text \<open>
  A summary can be printed when each of its failures has an error and a source, that is
  when neither is \<open>undefined\<close> or \<open>null\<close>.
\<close>

definition readable :: "jsval \<Rightarrow> bool" where
  "readable v = (v \<noteq> JUndefined \<and> v \<noteq> JNull)"

definition printable :: "summary \<Rightarrow> bool" where
  "printable s = list_all (\<lambda>f. readable (failure_error f) \<and> readable (failure_source f)) (failures s)"

section \<open>Sample inputs\<close>

definition runner0 :: runner where
  "runner0 =
     \<lparr>collectionsDir = ''/app/collections'',
      environmentsDir = ''/app/environments'',
      dataDir = ''/app/data'',
      reportsDir = ''/app/reports'',
      pathJoin = (\<lambda>dir file. dir @ ''/'' @ file)\<rparr>"

definition clock1 :: string where
  "clock1 = ''2024-01-15T10:30:00.000Z''"

text \<open>
  A casing that knows the two code points beyond ASCII whose lower case has an ASCII
  letter in it: the Kelvin sign, which becomes \<open>k\<close>, and the dotted capital I, which
  becomes \<open>i\<close> followed by a combining dot. It keeps every other code point.
\<close>

definition casing0 :: casing where
  "casing0 s i =
     (if s ! i = 8490 then [107] else if s ! i = 304 then [105, 775] else [s ! i])"

definition no_failures :: run_stats where
  "no_failures =
     \<lparr>stats_iterations = \<lparr>total = 1, failed = 0\<rparr>,
      stats_requests = \<lparr>total = 5, failed = 0\<rparr>,
      stats_assertions = \<lparr>total = 12, failed = 0\<rparr>\<rparr>"

definition passing_summary :: summary where
  "passing_summary = \<lparr>stats = no_failures, responseAverage = JNum 120, failures = []\<rparr>"

definition assertion_error :: jsval where
  "assertion_error =
     JObj [(''name'', JStr ''AssertionError''), (''message'', JStr ''expected 200 but got 401'')]"

definition one_failure :: failure where
  "one_failure =
     \<lparr>failure_error = assertion_error,
      failure_source = JObj [(''name'', JStr ''Get User Profile'')]\<rparr>"

definition one_failed_assertion :: run_stats where
  "one_failed_assertion =
     \<lparr>stats_iterations = \<lparr>total = 1, failed = 0\<rparr>,
      stats_requests = \<lparr>total = 5, failed = 0\<rparr>,
      stats_assertions = \<lparr>total = 12, failed = 1\<rparr>\<rparr>"

definition failing_summary :: summary where
  "failing_summary =
     \<lparr>stats = one_failed_assertion, responseAverage = JNum 120, failures = [one_failure]\<rparr>"

definition sourceless_summary :: summary where
  "sourceless_summary =
     \<lparr>stats = one_failed_assertion, responseAverage = JNum 120,
      failures = [\<lparr>failure_error = assertion_error, failure_source = JUndefined\<rparr>]\<rparr>"

definition newman_error :: js_error where
  "newman_error = JsError ''Error'' ''collection could not be loaded''"

text \<open>
  A stand-in for Newman that looks at the run options it is given: it delivers the summary
  when they are as expected and reports an error otherwise.
\<close>

definition expecting :: "(jsobj \<Rightarrow> bool) \<Rightarrow> summary \<Rightarrow> newman" where
  "expecting expected s ro = (if expected ro then Inr s else Inl newman_error)"

definition helper0 :: helper where
  "helper0 = GmailOAuthHelper ''my-client-id'' ''my-client-secret'' None"

definition world0 :: world where
  "world0 = \<lparr>this = helper0, network = [], disk = [(''.env'', ''CLIENT_ID=my-client-id'')], stdout = []\<rparr>"

definition token_body :: jsval where
  "token_body =
     JObj [(''access_token'', JStr ''ya29.a0abc123def456''),
           (''expires_in'', JNum 3600),
           (''token_type'', JStr ''Bearer'')]"

definition issuing_endpoint :: endpoint where
  "issuing_endpoint sent req =
     Inr \<lparr>resp_ok = True, resp_statusText = ''OK'', resp_json = Inr token_body\<rparr>"

definition tokenless_body :: jsobj where
  "tokenless_body = [(''token_type'', JStr ''Bearer''), (''expires_in'', JNum 3600)]"

definition tokenless_endpoint :: endpoint where
  "tokenless_endpoint sent req =
     Inr \<lparr>resp_ok = True, resp_statusText = ''OK'', resp_json = Inr (JObj tokenless_body)\<rparr>"

definition refusing_endpoint :: endpoint where
  "refusing_endpoint sent req =
     Inr \<lparr>resp_ok = False, resp_statusText = ''Unauthorized'',
          resp_json = Inr (JObj [(''error'', JStr ''invalid_grant'')])\<rparr>"

definition manager0 :: credential_manager where
  "manager0 = \<lparr>cache = (\<lambda>key. None), cm_world = world0\<rparr>"

definition gmail_collection :: "string folder list" where
  "gmail_collection =
     [\<lparr>folder_name = ''Authentication'', folder_requests = [''Refresh Access Token'']\<rparr>,
      \<lparr>folder_name = ''Profile & User Info'', folder_requests = [''Get User Profile'']\<rparr>,
      \<lparr>folder_name = ''Labels Management'', folder_requests = [''List Labels'', ''Create Label'']\<rparr>,
      \<lparr>folder_name = ''Messages'', folder_requests = [''List Messages'', ''Send Email'']\<rparr>,
      \<lparr>folder_name = ''Cleanup'', folder_requests = [''Delete Label'']\<rparr>]"

definition custom_options :: jsobj where
  "custom_options =
     [(''reporters'', JArr [JStr ''cli'']),
      (''iterations'', JNum 3),
      (''delay'', JNum 200),
      (''timeout'', JNum 0)]"

definition tuned_options :: jsobj where
  "tuned_options =
     [(''iterations'', JNum 3),
      (''delay'', JNum 250),
      (''timeout'', JNum 5000),
      (''bail'', JBool True)]"

definition zero_delay_options :: jsobj where
  "zero_delay_options = [(''delay'', JNum 0)]"

definition token0 :: token where
  "token0 =
     \<lparr>access_token = ''ya29.a0abc123def456'', token_type = ''Bearer'', expiry = 4600,
      obtained_with = ''1//04-abc123def456''\<rparr>"

section \<open>Objects and spreads\<close>

lemma obj_get_spread:
  "obj_get (spread a b) k = (case obj_get b k of None \<Rightarrow> obj_get a k | Some v \<Rightarrow> Some v)"
  by (simp add: obj_get_def spread_def map_add_def split: option.splits)

lemma has_key_obj_get: "has_key obj k \<longleftrightarrow> obj_get obj k \<noteq> None"
  by (simp add: has_key_def obj_get_def map_of_eq_None_iff)

lemma get_prop_spread_present:
  "has_key b k \<Longrightarrow> get_prop (spread a b) k = get_prop b k"
  by (auto simp: get_prop_def obj_get_spread has_key_obj_get split: option.splits)

lemma get_prop_spread_absent:
  "\<not> has_key b k \<Longrightarrow> get_prop (spread a b) k = get_prop a k"
  by (auto simp: get_prop_def obj_get_spread has_key_obj_get split: option.splits)

lemma computed_iterationCount:
  "obj_get (computedFields r e opts now) ''iterationCount'' =
     Some (js_or (get_prop opts ''iterations'') (JNum 1))"
  by (simp add: computedFields_def obj_get_def)

lemma computed_delayRequest:
  "obj_get (computedFields r e opts now) ''delayRequest'' =
     Some (js_or (get_prop opts ''delay'') (JNum 1000))"
  by (simp add: computedFields_def obj_get_def)

lemma computed_timeout:
  "obj_get (computedFields r e opts now) ''timeout'' =
     Some (js_or (get_prop opts ''timeout'') (JNum 30000))"
  by (simp add: computedFields_def obj_get_def)

lemma computed_bail:
  "obj_get (computedFields r e opts now) ''bail'' =
     Some (js_or (get_prop opts ''bail'') (JBool False))"
  by (simp add: computedFields_def obj_get_def)

section \<open>How a run settles\<close>

lemma runGmailTests_run:
  "runGmailTests r (Some e) opts now nm =
     logged_before (start_log r e)
       (run_callback r now (nm (runOptions r e (case opts of None \<Rightarrow> [] | Some x \<Rightarrow> x) now)))"
  by (simp add: runGmailTests_def Let_def)

lemma runSmokeTests_run:
  "runSmokeTests r (Some e) now nm =
     logged_before [Log ''Running Gmail API Smoke Tests...'' []]
       (logged_before (start_log r e) (run_callback r now (nm (runOptions r e smokeOptions now))))"
  by (simp add: runSmokeTests_def Let_def runGmailTests_run)

lemma runPerformanceTests_run:
  "runPerformanceTests r (Some e) iters now nm =
     logged_before [Log ''Running Gmail API Performance Tests...'' []]
       (logged_before (start_log r e)
         (run_callback r now
           (nm (runOptions r e (performanceOptions (default_param iters (JNum 5))) now))))"
  by (simp add: runPerformanceTests_def Let_def runGmailTests_run)

lemma settled_logged_before: "settled (logged_before ls res) = settled res"
  by (simp add: logged_before_def)

lemma console_logged_before: "console (logged_before ls res) = ls @ console res"
  by (simp add: logged_before_def)

lemma exit_code_finish:
  "exit_code (finish res) =
     (case settled res of Resolved s \<Rightarrow> Some 0 | Rejected e \<Rightarrow> Some 1 | Unsettled e \<Rightarrow> None)"
  by (simp add: finish_def split: settlement.splits)

lemma member_readable: "(\<exists>v. member x k = Inr v) \<longleftrightarrow> readable x"
  by (cases x) (simp_all add: member_def readable_def)

lemma failure_lines_thrown:
  "snd (failure_lines index f) = None \<longleftrightarrow> readable (failure_error f) \<and> readable (failure_source f)"
proof (cases "readable (failure_error f)")
  case False
  then have "\<exists>e. member (failure_error f) ''name'' = Inl e"
    using member_readable [of "failure_error f" "''name''"] by (cases "member (failure_error f) ''name''") auto
  with False show ?thesis by (auto simp: failure_lines_def)
next
  case True
  then obtain n m where nm: "member (failure_error f) ''name'' = Inr n"
    "member (failure_error f) ''message'' = Inr m"
    using member_readable by blast
  show ?thesis
  proof (cases "member (failure_source f) ''name''")
    case (Inl e)
    then have "\<not> readable (failure_source f)"
      using member_readable [of "failure_source f" "''name''"] by auto
    with Inl nm True show ?thesis by (simp add: failure_lines_def)
  next
    case (Inr v)
    then have "readable (failure_source f)"
      using member_readable [of "failure_source f" "''name''"] by blast
    with Inr nm True show ?thesis by (simp add: failure_lines_def)
  qed
qed

lemma print_failures_thrown:
  "snd (print_failures index fs) = None \<longleftrightarrow>
     list_all (\<lambda>f. readable (failure_error f) \<and> readable (failure_source f)) fs"
proof (induction fs arbitrary: index)
  case Nil
  show ?case by simp
next
  case (Cons f fs)
  show ?case
  proof (cases "failure_lines index f")
    case (Pair ls thrown)
    with failure_lines_thrown [of index f] Cons.IH [of "Suc index"] show ?thesis
      by (cases thrown; cases "print_failures (Suc index) fs") auto
  qed
qed

lemma verdict_log_thrown: "snd (verdict_log s) = None \<longleftrightarrow> printable s"
  using print_failures_thrown [of 0 "failures s"]
  by (cases "print_failures 0 (failures s)") (auto simp: verdict_log_def printable_def)

lemma settled_run_callback:
  "settled (run_callback r now answer) =
     (case answer of
        Inl err \<Rightarrow> Rejected err
      | Inr s \<Rightarrow>
          (case snd (verdict_log s) of None \<Rightarrow> Resolved s | Some e \<Rightarrow> Unsettled e))"
  by (cases answer) (auto simp: run_callback_def split: prod.splits option.splits)

lemma exit_code_run_callback:
  "exit_code (finish (run_callback r now answer)) =
     (case answer of Inl err \<Rightarrow> Some 1 | Inr s \<Rightarrow> if printable s then Some 0 else None)"
  by (cases answer)
     (auto simp: exit_code_finish settled_run_callback verdict_log_thrown [symmetric]
       split: option.splits)

lemma exit_code_logged_before:
  "exit_code (finish (logged_before ls res)) = exit_code (finish res)"
  by (simp add: exit_code_finish settled_logged_before)

section \<open>Literals of the command line\<close>

lemma lower_ascii:
  assumes "\<forall>c \<in> set s. c < 128"
  shows "toLowerCase casing s = map ascii_lower s"
proof -
  have "toLowerCase casing s = concat (map (\<lambda>i. [ascii_lower (s ! i)]) [0..<length s])"
    unfolding toLowerCase_def using assms
    by (intro arg_cong [where f = concat] map_cong) auto
  also have "\<dots> = map (\<lambda>i. ascii_lower (s ! i)) [0..<length s]"
    by (induction "[0..<length s]" rule: rev_induct) (simp_all add: concat_map_singleton)
  also have "\<dots> = map ascii_lower (map ((!) s) [0..<length s])"
    by simp
  finally show ?thesis by (simp add: map_nth)
qed

lemma selector_of_literal:
  "toLowerCase casing (ascii ''smoke'') = ascii ''smoke''"
  "toLowerCase casing (ascii ''full'') = ascii ''full''"
  "toLowerCase casing (ascii ''performance'') = ascii ''performance''"
  by (simp_all add: lower_ascii ascii_def ascii_lower_def)

lemma literals_differ:
  "ascii ''full'' \<noteq> ascii ''smoke''" "ascii ''full'' \<noteq> ascii ''performance''"
  "ascii ''smoke'' \<noteq> ascii ''performance''" "ascii ''smoke'' \<noteq> []" "ascii ''full'' \<noteq> []"
  "ascii ''performance'' \<noteq> []" "ascii ''Development'' \<noteq> []"
  by (simp_all add: ascii_def)

lemma utf8_Development: "utf8 (ascii ''Development'') = ''Development''"
  by code_simp

section \<open>The exit code of the command line\<close>

text \<open>
  C1 (as the code has it). The exit code of \<open>main\<close> is decided by what Newman's callback
  receives for the options that \<open>main\<close> submits. With a summary whose failures all have
  an error and a source, \<open>main\<close> exits with 0, whatever failures the summary records.
  With an error it exits with 1. With a summary that holds a failure without error or
  source the callback throws before the promise settles, and \<open>main\<close> reaches neither
  exit.
\<close>

theorem exit_code_follows_newman_error:
  "\<exists>ro. \<forall>newman_run.
     exit_code (main r casing args now newman_run) =
       (case newman_run ro of
          Inl err \<Rightarrow> Some 1
        | Inr s \<Rightarrow> if printable s then Some 0 else None)"
proof -
  let ?env = "utf8 (arg_or (arg args 1) (ascii ''Development''))"
  let ?sel = "toLowerCase casing (arg_or (arg args 0) (ascii ''full''))"
  let ?iters = "default_param (js_or (parseInt (arg args 2)) (JNum 5)) (JNum 5)"
  let ?ro = "runOptions r ?env
      (if ?sel = ascii ''smoke'' then smokeOptions
       else if ?sel = ascii ''performance'' then performanceOptions ?iters
       else []) now"
  have "exit_code (main r casing args now nm) =
      (case nm ?ro of Inl err \<Rightarrow> Some 1 | Inr s \<Rightarrow> if printable s then Some 0 else None)" for nm
    by (simp add: main_def Let_def runSmokeTests_run runPerformanceTests_run runGmailTests_run
        exit_code_logged_before exit_code_run_callback)
  then show ?thesis by blast
qed

theorem exit_code_follows_newman_error_witness:
  "exit_code (main runner0 casing0 [ascii ''full'', ascii ''Production''] clock1
     (\<lambda>ro. Inl newman_error)) = Some 1
   \<and> exit_code (main runner0 casing0 [ascii ''full'', ascii ''Production''] clock1
     (\<lambda>ro. Inr passing_summary)) = Some 0
   \<and> exit_code (main runner0 casing0 [ascii ''full'', ascii ''Production''] clock1
     (\<lambda>ro. Inr failing_summary)) = Some 0
   \<and> exit_code (main runner0 casing0 [ascii ''full'', ascii ''Production''] clock1
     (\<lambda>ro. Inr sourceless_summary)) = None"
proof -
  obtain ro where
    h: "\<And>nm. exit_code (main runner0 casing0 [ascii ''full'', ascii ''Production''] clock1 nm) =
      (case nm ro of Inl err \<Rightarrow> Some 1 | Inr s \<Rightarrow> if printable s then Some 0 else None)"
    using exit_code_follows_newman_error
      [of runner0 casing0 "[ascii ''full'', ascii ''Production'']" clock1]
    by blast
  have "printable passing_summary" "printable failing_summary" "\<not> printable sourceless_summary"
    by (simp_all add: printable_def passing_summary_def failing_summary_def sourceless_summary_def
        one_failure_def assertion_error_def readable_def)
  then show ?thesis
    by (simp add: h)
qed

text \<open>
  C1 fails as stated: a smoke run (submitted with bail set) whose summary records a failed
  assertion and one failure still exits with code 0.
\<close>

theorem exit_code_zero_with_failures:
  "exit_code (main runner0 casing0 [ascii ''smoke'', ascii ''Development''] clock1
     (expecting (\<lambda>ro. get_prop ro ''bail'' = JBool True) failing_summary)) = Some 0
   \<and> failed (stats_assertions (stats failing_summary)) = 1
   \<and> length (failures failing_summary) = 1"
proof -
  have bail: "get_prop (runOptions runner0 ''Development'' smokeOptions clock1) ''bail'' = JBool True"
    by (simp add: runOptions_def spread_def smokeOptions_def get_prop_def obj_get_def)
  have "printable failing_summary"
    by (simp add: printable_def failing_summary_def one_failure_def assertion_error_def readable_def)
  then have "exit_code (main runner0 casing0 [ascii ''smoke'', ascii ''Development''] clock1
     (expecting (\<lambda>ro. get_prop ro ''bail'' = JBool True) failing_summary)) = Some 0"
    by (simp add: main_def Let_def arg_def arg_or_def literals_differ selector_of_literal
        utf8_Development runSmokeTests_run exit_code_logged_before exit_code_run_callback
        expecting_def bail)
  then show ?thesis
    by (simp add: failing_summary_def one_failed_assertion_def)
qed

section \<open>The run options\<close>

lemma get_prop_runOptions_present:
  "has_key options k \<Longrightarrow> get_prop (runOptions r e options now) k = get_prop options k"
  by (simp add: runOptions_def get_prop_spread_present)

lemma get_prop_runOptions_absent:
  "\<not> has_key options k \<Longrightarrow>
     get_prop (runOptions r e options now) k = get_prop (computedFields r e options now) k"
  by (simp add: runOptions_def get_prop_spread_absent)

lemma get_prop_absent: "\<not> has_key obj k \<Longrightarrow> get_prop obj k = JUndefined"
  by (simp add: get_prop_def has_key_obj_get)

lemma resolved_passing:
  "settled (run_callback r now (Inr passing_summary)) = Resolved passing_summary"
  by (simp add: run_callback_def verdict_log_def passing_summary_def)

text \<open>
  C10. The caller's options are spread after the computed fields, and the result is what
  \<open>runGmailTests\<close> calls \<open>newman.run\<close> with. A key of the options has in the run
  options the value the caller gave it, also where a computed field of that name exists
  (\<open>reporters\<close>, \<open>collection\<close>, \<open>timeout\<close>), and every other key keeps its computed
  value. An alias (\<open>iterations\<close>, \<open>delay\<close>) is present under its raw name and under
  its mapped name (\<open>iterationCount\<close>, \<open>delayRequest\<close>). Nothing is printed about any
  of this: the console of the run is the opening lines, which do not depend on the
  options, followed by what the callback prints for Newman's answer.
\<close>

theorem options_spread_overrides_computed_fields:
  "(has_key options k \<longrightarrow>
      obj_get (runOptions r environment options now) k = obj_get options k)
   \<and> (\<not> has_key options k \<longrightarrow>
      obj_get (runOptions r environment options now) k =
      obj_get (computedFields r environment options now) k)
   \<and> (has_key options ''iterations'' \<and> \<not> has_key options ''iterationCount'' \<longrightarrow>
      obj_get (runOptions r environment options now) ''iterations'' = obj_get options ''iterations'' \<and>
      obj_get (runOptions r environment options now) ''iterationCount'' =
        Some (js_or (get_prop options ''iterations'') (JNum 1)))
   \<and> (has_key options ''delay'' \<and> \<not> has_key options ''delayRequest'' \<longrightarrow>
      obj_get (runOptions r environment options now) ''delay'' = obj_get options ''delay'' \<and>
      obj_get (runOptions r environment options now) ''delayRequest'' =
        Some (js_or (get_prop options ''delay'') (JNum 1000)))
   \<and> runGmailTests r (Some environment) (Some options) now newman_run =
       logged_before (start_log r environment)
         (run_callback r now (newman_run (runOptions r environment options now)))
   \<and> console (runGmailTests r (Some environment) (Some options) now (\<lambda>ro. answer)) =
       console (runGmailTests r (Some environment) None now (\<lambda>ro. answer))"
  by (auto simp: runOptions_def obj_get_spread has_key_obj_get computed_iterationCount
      computed_delayRequest runGmailTests_run console_logged_before split: option.splits)

theorem options_spread_overrides_computed_fields_witness:
  "obj_get (runOptions runner0 ''Development'' custom_options clock1) ''reporters'' =
     Some (JArr [JStr ''cli''])
   \<and> obj_get (runOptions runner0 ''Development'' custom_options clock1) ''timeout'' = Some (JNum 0)
   \<and> obj_get (runOptions runner0 ''Development'' custom_options clock1) ''color'' = Some (JStr ''on'')
   \<and> obj_get (runOptions runner0 ''Development'' custom_options clock1) ''iterations'' = Some (JNum 3)
   \<and> obj_get (runOptions runner0 ''Development'' custom_options clock1) ''iterationCount'' = Some (JNum 3)
   \<and> obj_get (runOptions runner0 ''Development'' custom_options clock1) ''delay'' = Some (JNum 200)
   \<and> obj_get (runOptions runner0 ''Development'' custom_options clock1) ''delayRequest'' = Some (JNum 200)
   \<and> settled (runGmailTests runner0 (Some ''Development'') (Some custom_options) clock1
        (expecting
          (\<lambda>ro. get_prop ro ''reporters'' = JArr [JStr ''cli''] \<and> get_prop ro ''timeout'' = JNum 0 \<and>
                get_prop ro ''iterations'' = JNum 3 \<and> get_prop ro ''iterationCount'' = JNum 3 \<and>
                get_prop ro ''delay'' = JNum 200 \<and> get_prop ro ''delayRequest'' = JNum 200)
          passing_summary)) = Resolved passing_summary
   \<and> console (runGmailTests runner0 (Some ''Development'') (Some custom_options) clock1
        (\<lambda>ro. Inr passing_summary)) =
      console (runGmailTests runner0 (Some ''Development'') None clock1 (\<lambda>ro. Inr passing_summary))"
proof -
  let ?ro = "runOptions runner0 ''Development'' custom_options clock1"
  let ?nm = "expecting
      (\<lambda>ro. get_prop ro ''reporters'' = JArr [JStr ''cli''] \<and> get_prop ro ''timeout'' = JNum 0 \<and>
            get_prop ro ''iterations'' = JNum 3 \<and> get_prop ro ''iterationCount'' = JNum 3 \<and>
            get_prop ro ''delay'' = JNum 200 \<and> get_prop ro ''delayRequest'' = JNum 200)
      passing_summary"
  have keys: "has_key custom_options ''reporters''" "has_key custom_options ''timeout''"
    "\<not> has_key custom_options ''color''" "has_key custom_options ''iterations''"
    "\<not> has_key custom_options ''iterationCount''" "has_key custom_options ''delay''"
    "\<not> has_key custom_options ''delayRequest''"
    by (simp_all add: has_key_def custom_options_def)
  have vals: "obj_get custom_options ''reporters'' = Some (JArr [JStr ''cli''])"
    "obj_get custom_options ''timeout'' = Some (JNum 0)"
    "obj_get custom_options ''iterations'' = Some (JNum 3)"
    "obj_get custom_options ''delay'' = Some (JNum 200)"
    "get_prop custom_options ''iterations'' = JNum 3"
    "get_prop custom_options ''delay'' = JNum 200"
    "obj_get (computedFields runner0 ''Development'' custom_options clock1) ''color'' = Some (JStr ''on'')"
    by (simp_all add: get_prop_def obj_get_def custom_options_def computedFields_def)
  note inst = options_spread_overrides_computed_fields
    [of custom_options _ runner0 "''Development''" clock1 _ "Inr passing_summary"]
  have a: "obj_get ?ro ''reporters'' = Some (JArr [JStr ''cli''])"
    using inst [of "''reporters''"] keys vals by simp
  have b: "obj_get ?ro ''timeout'' = Some (JNum 0)"
    using inst [of "''timeout''"] keys vals by simp
  have c: "obj_get ?ro ''color'' = Some (JStr ''on'')"
    using inst [of "''color''"] keys vals by simp
  have d: "obj_get ?ro ''iterations'' = Some (JNum 3)" "obj_get ?ro ''iterationCount'' = Some (JNum 3)"
    "obj_get ?ro ''delay'' = Some (JNum 200)" "obj_get ?ro ''delayRequest'' = Some (JNum 200)"
    using inst [of "''color''"] keys vals by (simp_all add: js_or_def)
  have "?nm ?ro = Inr passing_summary"
    by (simp add: expecting_def get_prop_def a b d)
  then have e: "settled (runGmailTests runner0 (Some ''Development'') (Some custom_options) clock1 ?nm) =
      Resolved passing_summary"
    using inst [of "''color''" ?nm] by (simp add: settled_logged_before resolved_passing)
  have f: "console (runGmailTests runner0 (Some ''Development'') (Some custom_options) clock1
        (\<lambda>ro. Inr passing_summary)) =
      console (runGmailTests runner0 (Some ''Development'') None clock1 (\<lambda>ro. Inr passing_summary))"
    using inst [of "''color''"] by blast
  from a b c d e f show ?thesis by blast
qed

text \<open>
  C2 (as the code has it). For options that do not themselves carry the keys
  \<open>iterationCount\<close> or \<open>delayRequest\<close>: a positive number of iterations is used and
  an absent one is 1; a positive delay is used, and a delay that is absent or 0 is 1000;
  a positive timeout is used and an absent one is 30000; a boolean \<open>bail\<close> is used and
  an absent one is false. The run options with these values are what \<open>runGmailTests\<close>
  calls \<open>newman.run\<close> with.
\<close>

theorem effective_run_configuration:
  assumes "\<not> has_key options ''iterationCount''" and "\<not> has_key options ''delayRequest''"
  shows
    "(get_prop options ''iterations'' = JNum n \<and> 0 < n \<longrightarrow>
        get_prop (runOptions r environment options now) ''iterationCount'' = JNum n)
     \<and> (\<not> has_key options ''iterations'' \<longrightarrow>
        get_prop (runOptions r environment options now) ''iterationCount'' = JNum 1)
     \<and> (get_prop options ''delay'' = JNum d \<and> 0 < d \<longrightarrow>
        get_prop (runOptions r environment options now) ''delayRequest'' = JNum d)
     \<and> (get_prop options ''delay'' = JNum 0 \<or> \<not> has_key options ''delay'' \<longrightarrow>
        get_prop (runOptions r environment options now) ''delayRequest'' = JNum 1000)
     \<and> (get_prop options ''timeout'' = JNum t \<and> 0 < t \<longrightarrow>
        get_prop (runOptions r environment options now) ''timeout'' = JNum t)
     \<and> (\<not> has_key options ''timeout'' \<longrightarrow>
        get_prop (runOptions r environment options now) ''timeout'' = JNum 30000)
     \<and> (get_prop options ''bail'' = JBool b \<longrightarrow>
        get_prop (runOptions r environment options now) ''bail'' = JBool b)
     \<and> (\<not> has_key options ''bail'' \<longrightarrow>
        get_prop (runOptions r environment options now) ''bail'' = JBool False)
     \<and> runGmailTests r (Some environment) (Some options) now newman_run =
         logged_before (start_log r environment)
           (run_callback r now (newman_run (runOptions r environment options now)))"
proof -
  let ?ro = "runOptions r environment options now"
  have ic: "get_prop ?ro ''iterationCount'' = js_or (get_prop options ''iterations'') (JNum 1)"
    using assms(1)
    by (simp add: get_prop_runOptions_absent) (simp add: get_prop_def computed_iterationCount)
  have dr: "get_prop ?ro ''delayRequest'' = js_or (get_prop options ''delay'') (JNum 1000)"
    using assms(2)
    by (simp add: get_prop_runOptions_absent) (simp add: get_prop_def computed_delayRequest)
  have to: "get_prop ?ro ''timeout'' =
      (if has_key options ''timeout'' then get_prop options ''timeout'' else JNum 30000)"
    by (simp add: get_prop_runOptions_present get_prop_runOptions_absent)
       (simp add: get_prop_def computed_timeout js_or_def has_key_obj_get)
  have ba: "get_prop ?ro ''bail'' =
      (if has_key options ''bail'' then get_prop options ''bail'' else JBool False)"
    by (simp add: get_prop_runOptions_present get_prop_runOptions_absent)
       (simp add: get_prop_def computed_bail js_or_def has_key_obj_get)
  show ?thesis
    unfolding ic dr to ba
    by (auto simp: js_or_def get_prop_absent runGmailTests_run)
qed

theorem effective_run_configuration_witness:
  "get_prop (runOptions runner0 ''Production'' tuned_options clock1) ''iterationCount'' = JNum 3
   \<and> get_prop (runOptions runner0 ''Production'' tuned_options clock1) ''delayRequest'' = JNum 250
   \<and> get_prop (runOptions runner0 ''Production'' tuned_options clock1) ''timeout'' = JNum 5000
   \<and> get_prop (runOptions runner0 ''Production'' tuned_options clock1) ''bail'' = JBool True
   \<and> get_prop (runOptions runner0 ''Production'' zero_delay_options clock1) ''iterationCount'' = JNum 1
   \<and> get_prop (runOptions runner0 ''Production'' zero_delay_options clock1) ''delayRequest'' = JNum 1000
   \<and> get_prop (runOptions runner0 ''Production'' zero_delay_options clock1) ''timeout'' = JNum 30000
   \<and> get_prop (runOptions runner0 ''Production'' zero_delay_options clock1) ''bail'' = JBool False
   \<and> settled (runGmailTests runner0 (Some ''Production'') (Some zero_delay_options) clock1
        (expecting (\<lambda>ro. get_prop ro ''delayRequest'' = JNum 1000 \<and> get_prop ro ''timeout'' = JNum 30000)
          passing_summary)) = Resolved passing_summary"
proof -
  let ?nm = "expecting (\<lambda>ro. get_prop ro ''delayRequest'' = JNum 1000 \<and> get_prop ro ''timeout'' = JNum 30000)
      passing_summary"
  have tuned: "\<not> has_key tuned_options ''iterationCount''" "\<not> has_key tuned_options ''delayRequest''"
    "get_prop tuned_options ''iterations'' = JNum 3" "get_prop tuned_options ''delay'' = JNum 250"
    "get_prop tuned_options ''timeout'' = JNum 5000" "get_prop tuned_options ''bail'' = JBool True"
    by (simp_all add: has_key_def tuned_options_def get_prop_def obj_get_def)
  have zero: "\<not> has_key zero_delay_options ''iterationCount''"
    "\<not> has_key zero_delay_options ''delayRequest''" "\<not> has_key zero_delay_options ''iterations''"
    "get_prop zero_delay_options ''delay'' = JNum 0" "\<not> has_key zero_delay_options ''timeout''"
    "\<not> has_key zero_delay_options ''bail''"
    by (simp_all add: has_key_def zero_delay_options_def get_prop_def obj_get_def)
  note t = effective_run_configuration
    [OF tuned(1,2), of 3 runner0 "''Production''" clock1 250 5000 True ?nm]
  note z = effective_run_configuration
    [OF zero(1,2), of 3 runner0 "''Production''" clock1 250 5000 True ?nm]
  have a: "get_prop (runOptions runner0 ''Production'' tuned_options clock1) ''iterationCount'' = JNum 3"
    "get_prop (runOptions runner0 ''Production'' tuned_options clock1) ''delayRequest'' = JNum 250"
    "get_prop (runOptions runner0 ''Production'' tuned_options clock1) ''timeout'' = JNum 5000"
    "get_prop (runOptions runner0 ''Production'' tuned_options clock1) ''bail'' = JBool True"
    using t tuned by simp_all
  have b: "get_prop (runOptions runner0 ''Production'' zero_delay_options clock1) ''iterationCount'' = JNum 1"
    "get_prop (runOptions runner0 ''Production'' zero_delay_options clock1) ''delayRequest'' = JNum 1000"
    "get_prop (runOptions runner0 ''Production'' zero_delay_options clock1) ''timeout'' = JNum 30000"
    "get_prop (runOptions runner0 ''Production'' zero_delay_options clock1) ''bail'' = JBool False"
    using z zero by simp_all
  have "?nm (runOptions runner0 ''Production'' zero_delay_options clock1) = Inr passing_summary"
    by (simp add: expecting_def b)
  then have c: "settled (runGmailTests runner0 (Some ''Production'') (Some zero_delay_options) clock1 ?nm) =
      Resolved passing_summary"
    using z by (simp add: settled_logged_before resolved_passing)
  from a b c show ?thesis by blast
qed

text \<open>
  C2 fails as stated: a supplied delay of 0 is not used; the run is configured with a
  delay of 1000.
\<close>

theorem zero_delay_is_replaced:
  "get_prop zero_delay_options ''delay'' = JNum 0
   \<and> get_prop (runOptions runner0 ''Development'' zero_delay_options clock1) ''delayRequest'' = JNum 1000
   \<and> get_prop (runOptions runner0 ''Development'' zero_delay_options clock1) ''delayRequest'' \<noteq> JNum 0"
  by (simp add: zero_delay_options_def runOptions_def spread_def computedFields_def get_prop_def
      obj_get_def js_or_def)

section \<open>Fallbacks of the command line\<close>



text \<open>A no-break space before the digits is skipped, as any white space is.\<close>

lemma parseInt_after_no_break_space: "parseInt_string [160, 55] = JNum 7"
  by (simp add: parseInt_string_def Let_def is_space_def is_digit_def digit_val_def ascii_def)

lemma toLowerCase_Nil: "toLowerCase casing [] = []"
  by (simp add: toLowerCase_def)

lemma selector_of_args:
  "toLowerCase casing (arg_or (arg args 0) (ascii ''full'')) =
     (if args = [] \<or> hd args = [] then ascii ''full'' else toLowerCase casing (hd args))"
  by (cases args) (simp_all add: arg_def arg_or_def selector_of_literal)





lemma lower_samples:
  "toLowerCase casing0 (ascii ''PERFORMANCE'') = ascii ''performance''"
  "toLowerCase casing0 (ascii ''Regression'') = ascii ''regression''"
  "toLowerCase casing0 [115, 109, 111, 8490, 101] = ascii ''smoke''"
  by code_simp+


lemma exit_code_expecting:
  "expected ro \<Longrightarrow>
     exit_code (finish (run_callback r now (expecting expected passing_summary ro))) = Some 0"
  by (simp add: expecting_def exit_code_finish resolved_passing)


section \<open>Smoke mode\<close>

lemma selected_subseq:
  "subseq (selected_requests ff collection) (selected_requests None collection)"
proof (induction collection)
  case Nil
  show ?case by (simp add: selected_requests_def)
next
  case (Cons f fs)
  let ?g = "\<lambda>f. map (Pair (folder_name f)) (folder_requests f)"
  have all: "selected_requests None (f # fs) = ?g f @ selected_requests None fs"
    by (simp add: selected_requests_def in_filter_def)
  show ?case
  proof (cases "in_filter ff f")
    case True
    then have "selected_requests ff (f # fs) = ?g f @ selected_requests ff fs"
      by (simp add: selected_requests_def)
    with Cons.IH all show ?thesis by (simp add: list_emb_append_mono)
  next
    case False
    then have "selected_requests ff (f # fs) = selected_requests ff fs"
      by (simp add: selected_requests_def)
    with Cons.IH all show ?thesis by (auto intro: list_emb_prefix)
  qed
qed

lemma selected_set:
  "set (selected_requests (Some names) collection) =
     {(f, q). (f, q) \<in> set (selected_requests None collection) \<and> f \<in> set names}"
  by (auto simp: selected_requests_def in_filter_def)

lemma folder_smoke:
  "obj_get (runOptions r e smokeOptions now) ''folder'' =
     Some (JArr [JStr ''Authentication'', JStr ''Profile & User Info''])"
  by (simp add: runOptions_def obj_get_spread) (simp add: obj_get_def smokeOptions_def)

lemma folderFilter_smoke:
  "folderFilter (runOptions r e smokeOptions now) = Some [''Authentication'', ''Profile & User Info'']"
  by (simp add: folderFilter_def folder_smoke)

text \<open>
  C3. In smoke mode, entered through \<open>main\<close> with a selector whose lower case is
  \<open>smoke\<close> or through \<open>runSmokeTests\<close>, Newman is called with run options whose
  \<open>folder\<close> entry is exactly the two names \<open>Authentication\<close> and
  \<open>Profile & User Info\<close>. Under that filter the selected requests are exactly the
  requests of the collection that lie in a folder of one of the two names, and they keep
  their relative order in the collection.
\<close>

theorem smoke_mode_folder_filter:
  "(args \<noteq> [] \<and> toLowerCase casing (hd args) = ascii ''smoke'' \<longrightarrow>
      main r casing args now newman_run =
        finish (logged_before [Log ''Running Gmail API Smoke Tests...'' []]
          (logged_before (start_log r (utf8 (arg_or (arg args 1) (ascii ''Development''))))
            (run_callback r now
              (newman_run (runOptions r (utf8 (arg_or (arg args 1) (ascii ''Development'')))
                 smokeOptions now))))))
   \<and> runSmokeTests r (Some environment) now newman_run =
       logged_before [Log ''Running Gmail API Smoke Tests...'' []]
         (logged_before (start_log r environment)
           (run_callback r now (newman_run (runOptions r environment smokeOptions now))))
   \<and> obj_get (runOptions r environment smokeOptions now) ''folder'' =
       Some (JArr [JStr ''Authentication'', JStr ''Profile & User Info''])
   \<and> folderFilter (runOptions r environment smokeOptions now) =
       Some [''Authentication'', ''Profile & User Info'']
   \<and> set (selected_requests (folderFilter (runOptions r environment smokeOptions now)) collection) =
       {(f, q). (f, q) \<in> set (selected_requests None collection) \<and>
                (f = ''Authentication'' \<or> f = ''Profile & User Info'')}
   \<and> subseq (selected_requests (folderFilter (runOptions r environment smokeOptions now)) collection)
        (selected_requests None collection)"
proof -
  have smoke: "main r casing args now newman_run =
        finish (logged_before [Log ''Running Gmail API Smoke Tests...'' []]
          (logged_before (start_log r (utf8 (arg_or (arg args 1) (ascii ''Development''))))
            (run_callback r now
              (newman_run (runOptions r (utf8 (arg_or (arg args 1) (ascii ''Development'')))
                 smokeOptions now)))))"
    if h: "args \<noteq> [] \<and> toLowerCase casing (hd args) = ascii ''smoke''"
  proof -
    from h have "toLowerCase casing (arg_or (arg args 0) (ascii ''full'')) = ascii ''smoke''"
      using literals_differ(4) by (auto simp: selector_of_args toLowerCase_Nil)
    then show ?thesis
      by (simp add: main_def Let_def runSmokeTests_run)
  qed
  show ?thesis
    using smoke
    by (auto simp: runSmokeTests_run folder_smoke folderFilter_smoke selected_set selected_subseq)
qed

theorem smoke_mode_folder_filter_witness:
  "exit_code (main runner0 casing0 [ascii ''smoke'', ascii ''Development''] clock1
     (expecting (\<lambda>ro. folderFilter ro = Some [''Authentication'', ''Profile & User Info''])
        passing_summary)) = Some 0
   \<and> exit_code (main runner0 casing0 [[115, 109, 111, 8490, 101]] clock1
     (expecting (\<lambda>ro. folderFilter ro = Some [''Authentication'', ''Profile & User Info''])
        passing_summary)) = Some 0
   \<and> selected_requests
       (folderFilter (runOptions runner0 ''Development'' smokeOptions clock1)) gmail_collection =
     [(''Authentication'', ''Refresh Access Token''), (''Profile & User Info'', ''Get User Profile'')]
   \<and> length gmail_collection = 5"
proof -
  let ?nm = "expecting (\<lambda>ro. folderFilter ro = Some [''Authentication'', ''Profile & User Info''])
      passing_summary"
  note plain = smoke_mode_folder_filter
    [of "[ascii ''smoke'', ascii ''Development'']" casing0 runner0 clock1 ?nm "''Development''"
      gmail_collection]
  note kelvin = smoke_mode_folder_filter
    [of "[[115, 109, 111, 8490, 101]]" casing0 runner0 clock1 ?nm "''Development''" gmail_collection]
  have a: "exit_code (main runner0 casing0 [ascii ''smoke'', ascii ''Development''] clock1 ?nm) = Some 0"
    using plain
    by (simp add: selector_of_literal exit_code_logged_before exit_code_expecting
        folderFilter_smoke)
  have b: "exit_code (main runner0 casing0 [[115, 109, 111, 8490, 101]] clock1 ?nm) = Some 0"
    using kelvin
    by (simp add: lower_samples exit_code_logged_before exit_code_expecting folderFilter_smoke)
  have filter: "folderFilter (runOptions runner0 ''Development'' smokeOptions clock1) =
      Some [''Authentication'', ''Profile & User Info'']"
    using plain by blast
  have c: "selected_requests
       (folderFilter (runOptions runner0 ''Development'' smokeOptions clock1)) gmail_collection =
     [(''Authentication'', ''Refresh Access Token''), (''Profile & User Info'', ''Get User Profile'')]"
    unfolding filter by (simp add: selected_requests_def in_filter_def gmail_collection_def)
  have d: "length gmail_collection = 5"
    by (simp add: gmail_collection_def)
  from a b c d show ?thesis by blast
qed

section \<open>Token acquisition and refresh\<close>

lemma refreshAccessToken_result:
  "fst (refreshAccessToken fetch refreshToken w) =
     (case fetch (network w) (refresh_request (this w) refreshToken) of
        Inl e \<Rightarrow> Inl e
      | Inr resp \<Rightarrow>
          if resp_ok resp then resp_json resp
          else Inl (JsError ''Error'' (''Token refresh failed: '' @ resp_statusText resp)))"
  by (simp add: refreshAccessToken_def Let_def split: sum.splits)

lemma exchangeCodeForTokens_result:
  "fst (exchangeCodeForTokens fetch authorizationCode w) =
     (case fetch (network w) (exchange_request (this w) authorizationCode) of
        Inl e \<Rightarrow> Inl e
      | Inr resp \<Rightarrow>
          if resp_ok resp then resp_json resp
          else Inl (JsError ''Error'' (''Token exchange failed: '' @ resp_statusText resp)))"
  by (simp add: exchangeCodeForTokens_def Let_def split: sum.splits)

lemma refreshAccessToken_world:
  "snd (refreshAccessToken fetch refreshToken w) =
     w\<lparr>network := network w @ [refresh_request (this w) refreshToken]\<rparr>"
  by (simp add: refreshAccessToken_def Let_def split: sum.splits)

lemma exchangeCodeForTokens_world:
  "snd (exchangeCodeForTokens fetch authorizationCode w) =
     w\<lparr>network := network w @ [exchange_request (this w) authorizationCode]\<rparr>"
  by (simp add: exchangeCodeForTokens_def Let_def split: sum.splits)

text \<open>
  C4 (as the code has it). Token refresh and code exchange fail with an \<open>Error\<close>
  naming the status text when the token endpoint answers with a non-success status. When
  the status is a success they return whatever \<open>response.json()\<close> yields: the
  parsed body as it is, with or without an \<open>access_token\<close> field.
\<close>

theorem token_call_outcomes:
  "(fetch (network w) (refresh_request (this w) refreshToken) = Inr resp \<and> \<not> resp_ok resp \<longrightarrow>
      fst (refreshAccessToken fetch refreshToken w) =
      Inl (JsError ''Error'' (''Token refresh failed: '' @ resp_statusText resp)))
   \<and> (fetch (network w) (refresh_request (this w) refreshToken) = Inr resp \<and> resp_ok resp \<longrightarrow>
      fst (refreshAccessToken fetch refreshToken w) = resp_json resp)
   \<and> (fetch (network w) (exchange_request (this w) authorizationCode) = Inr resp' \<and> \<not> resp_ok resp' \<longrightarrow>
      fst (exchangeCodeForTokens fetch authorizationCode w) =
      Inl (JsError ''Error'' (''Token exchange failed: '' @ resp_statusText resp')))
   \<and> (fetch (network w) (exchange_request (this w) authorizationCode) = Inr resp' \<and> resp_ok resp' \<longrightarrow>
      fst (exchangeCodeForTokens fetch authorizationCode w) = resp_json resp')"
  by (simp add: refreshAccessToken_result exchangeCodeForTokens_result)

theorem token_call_outcomes_witness:
  "fst (refreshAccessToken refusing_endpoint ''1//04-abc123def456'' world0) =
     Inl (JsError ''Error'' ''Token refresh failed: Unauthorized'')
   \<and> fst (exchangeCodeForTokens refusing_endpoint ''4/0AX4XfWh-code'' world0) =
     Inl (JsError ''Error'' ''Token exchange failed: Unauthorized'')
   \<and> fst (refreshAccessToken issuing_endpoint ''1//04-abc123def456'' world0) = Inr token_body
   \<and> fst (exchangeCodeForTokens issuing_endpoint ''4/0AX4XfWh-code'' world0) = Inr token_body"
proof -
  let ?bad = "\<lparr>resp_ok = False, resp_statusText = ''Unauthorized'',
      resp_json = Inr (JObj [(''error'', JStr ''invalid_grant'')])\<rparr>"
  let ?good = "\<lparr>resp_ok = True, resp_statusText = ''OK'', resp_json = Inr token_body\<rparr>"
  have refused: "refusing_endpoint sent req = Inr ?bad" for sent req
    by (simp add: refusing_endpoint_def)
  have issued: "issuing_endpoint sent req = Inr ?good" for sent req
    by (simp add: issuing_endpoint_def)
  show ?thesis
    using token_call_outcomes
      [of refusing_endpoint world0 "''1//04-abc123def456''" ?bad "''4/0AX4XfWh-code''" ?bad]
      token_call_outcomes
      [of issuing_endpoint world0 "''1//04-abc123def456''" ?good "''4/0AX4XfWh-code''" ?good]
    by (simp add: refused issued)
qed

text \<open>
  C4 fails as stated: a successful response whose body has no \<open>access_token\<close> is
  returned to the caller; no error is raised.
\<close>

theorem tokenless_payload_is_returned:
  "fst (refreshAccessToken tokenless_endpoint ''1//04-abc123def456'' world0) = Inr (JObj tokenless_body)
   \<and> fst (exchangeCodeForTokens tokenless_endpoint ''4/0AX4XfWh-code'' world0) = Inr (JObj tokenless_body)
   \<and> obj_get tokenless_body ''access_token'' = None"
  by (simp add: refreshAccessToken_result exchangeCodeForTokens_result tokenless_endpoint_def
      tokenless_body_def obj_get_def)

text \<open>
  C5 (as the code has it). Every refresh and every code exchange sends one request, a
  \<open>POST\<close> to the helper's token URL with a form-encoded body. For a refresh the body
  holds exactly \<open>client_id\<close>, \<open>client_secret\<close>, \<open>refresh_token\<close> and
  \<open>grant_type = refresh_token\<close>. For a code exchange it holds exactly \<open>client_id\<close>,
  \<open>client_secret\<close>, \<open>code\<close>, \<open>grant_type = authorization_code\<close> and
  \<open>redirect_uri\<close>. On a success status the parsed JSON body is what the caller gets.
\<close>

theorem token_request_shape:
  "network (snd (refreshAccessToken fetch refreshToken w)) =
     network w @ [refresh_request (this w) refreshToken]
   \<and> network (snd (exchangeCodeForTokens fetch authorizationCode w)) =
     network w @ [exchange_request (this w) authorizationCode]
   \<and> req_method (last (network (snd (refreshAccessToken fetch refreshToken w)))) = ''POST''
   \<and> req_url (last (network (snd (refreshAccessToken fetch refreshToken w)))) = tokenUrl (this w)
   \<and> req_headers (last (network (snd (refreshAccessToken fetch refreshToken w)))) =
       [(''Content-Type'', ''application/x-www-form-urlencoded'')]
   \<and> req_body (last (network (snd (refreshAccessToken fetch refreshToken w)))) =
       [(''client_id'', clientId (this w)),
        (''client_secret'', clientSecret (this w)),
        (''refresh_token'', refreshToken),
        (''grant_type'', ''refresh_token'')]
   \<and> req_method (last (network (snd (exchangeCodeForTokens fetch authorizationCode w)))) = ''POST''
   \<and> req_url (last (network (snd (exchangeCodeForTokens fetch authorizationCode w)))) = tokenUrl (this w)
   \<and> req_headers (last (network (snd (exchangeCodeForTokens fetch authorizationCode w)))) =
       [(''Content-Type'', ''application/x-www-form-urlencoded'')]
   \<and> req_body (last (network (snd (exchangeCodeForTokens fetch authorizationCode w)))) =
       [(''client_id'', clientId (this w)),
        (''client_secret'', clientSecret (this w)),
        (''code'', authorizationCode),
        (''grant_type'', ''authorization_code''),
        (''redirect_uri'', redirectUri (this w))]
   \<and> (fetch (network w) (refresh_request (this w) refreshToken) = Inr resp \<and> resp_ok resp \<longrightarrow>
      fst (refreshAccessToken fetch refreshToken w) = resp_json resp)
   \<and> (fetch (network w) (exchange_request (this w) authorizationCode) = Inr resp' \<and> resp_ok resp' \<longrightarrow>
      fst (exchangeCodeForTokens fetch authorizationCode w) = resp_json resp')"
  by (simp add: refreshAccessToken_world exchangeCodeForTokens_world refreshAccessToken_result
      exchangeCodeForTokens_result refresh_request_def exchange_request_def)

theorem token_request_shape_witness:
  "req_url (last (network (snd (refreshAccessToken issuing_endpoint ''1//04-abc123def456'' world0)))) =
     ''https://oauth2.googleapis.com/token''
   \<and> req_body (last (network (snd (refreshAccessToken issuing_endpoint ''1//04-abc123def456'' world0)))) =
     [(''client_id'', ''my-client-id''),
      (''client_secret'', ''my-client-secret''),
      (''refresh_token'', ''1//04-abc123def456''),
      (''grant_type'', ''refresh_token'')]
   \<and> req_body (last (network (snd (exchangeCodeForTokens issuing_endpoint ''4/0AX4XfWh-code'' world0)))) =
     [(''client_id'', ''my-client-id''),
      (''client_secret'', ''my-client-secret''),
      (''code'', ''4/0AX4XfWh-code''),
      (''grant_type'', ''authorization_code''),
      (''redirect_uri'', ''urn:ietf:wg:oauth:2.0:oob'')]
   \<and> fst (refreshAccessToken issuing_endpoint ''1//04-abc123def456'' world0) = Inr token_body
   \<and> fst (exchangeCodeForTokens issuing_endpoint ''4/0AX4XfWh-code'' world0) = Inr token_body"
proof -
  let ?good = "\<lparr>resp_ok = True, resp_statusText = ''OK'', resp_json = Inr token_body\<rparr>"
  have issued: "issuing_endpoint sent req = Inr ?good" for sent req
    by (simp add: issuing_endpoint_def)
  have vals: "tokenUrl (this world0) = ''https://oauth2.googleapis.com/token''"
    "clientId (this world0) = ''my-client-id''"
    "clientSecret (this world0) = ''my-client-secret''"
    "redirectUri (this world0) = ''urn:ietf:wg:oauth:2.0:oob''"
    "network world0 = []"
    by (simp_all add: world0_def helper0_def GmailOAuthHelper_def)
  show ?thesis
    using token_request_shape
      [of issuing_endpoint "''1//04-abc123def456''" world0 "''4/0AX4XfWh-code''" ?good ?good]
    by (simp add: issued vals refresh_request_def exchange_request_def)
qed

text \<open>
  C5 fails as stated: the body of a code exchange has a fifth field, \<open>redirect_uri\<close>.
\<close>

theorem exchange_sends_redirect_uri:
  "map fst (req_body (last (network (snd (exchangeCodeForTokens issuing_endpoint ''4/0AX4XfWh-code'' world0))))) =
     [''client_id'', ''client_secret'', ''code'', ''grant_type'', ''redirect_uri'']
   \<and> (''redirect_uri'', ''urn:ietf:wg:oauth:2.0:oob'') \<in>
       set (req_body (last (network (snd (exchangeCodeForTokens issuing_endpoint ''4/0AX4XfWh-code'' world0)))))"
  by (simp add: exchangeCodeForTokens_world exchange_request_def world0_def helper0_def
      GmailOAuthHelper_def)

text \<open>
  C8. A refresh or a code exchange changes nothing but the network, to which it adds its
  one request: the files on disk, the helper object and the console are as before, on
  success and on failure alike. The token of a successful response goes to the caller as
  the result of the call.
\<close>

theorem token_operations_frame:
  "snd (refreshAccessToken fetch refreshToken w) =
     w\<lparr>network := network w @ [refresh_request (this w) refreshToken]\<rparr>
   \<and> snd (exchangeCodeForTokens fetch authorizationCode w) =
     w\<lparr>network := network w @ [exchange_request (this w) authorizationCode]\<rparr>
   \<and> disk (snd (refreshAccessToken fetch refreshToken w)) = disk w
   \<and> this (snd (refreshAccessToken fetch refreshToken w)) = this w
   \<and> stdout (snd (refreshAccessToken fetch refreshToken w)) = stdout w
   \<and> disk (snd (exchangeCodeForTokens fetch authorizationCode w)) = disk w
   \<and> this (snd (exchangeCodeForTokens fetch authorizationCode w)) = this w
   \<and> stdout (snd (exchangeCodeForTokens fetch authorizationCode w)) = stdout w
   \<and> (fetch (network w) (refresh_request (this w) refreshToken) = Inr resp \<and> resp_ok resp \<longrightarrow>
      fst (refreshAccessToken fetch refreshToken w) = resp_json resp)
   \<and> (fetch (network w) (exchange_request (this w) authorizationCode) = Inr resp' \<and> resp_ok resp' \<longrightarrow>
      fst (exchangeCodeForTokens fetch authorizationCode w) = resp_json resp')"
  by (simp add: refreshAccessToken_world exchangeCodeForTokens_world refreshAccessToken_result
      exchangeCodeForTokens_result)

theorem token_operations_frame_witness:
  "disk (snd (refreshAccessToken issuing_endpoint ''1//04-abc123def456'' world0)) =
     [(''.env'', ''CLIENT_ID=my-client-id'')]
   \<and> disk (snd (exchangeCodeForTokens issuing_endpoint ''4/0AX4XfWh-code'' world0)) =
     [(''.env'', ''CLIENT_ID=my-client-id'')]
   \<and> this (snd (refreshAccessToken issuing_endpoint ''1//04-abc123def456'' world0)) = helper0
   \<and> this (snd (exchangeCodeForTokens issuing_endpoint ''4/0AX4XfWh-code'' world0)) = helper0
   \<and> stdout (snd (refreshAccessToken issuing_endpoint ''1//04-abc123def456'' world0)) = []
   \<and> length (network (snd (refreshAccessToken issuing_endpoint ''1//04-abc123def456'' world0))) = 1
   \<and> fst (refreshAccessToken issuing_endpoint ''1//04-abc123def456'' world0) = Inr token_body
   \<and> fst (exchangeCodeForTokens issuing_endpoint ''4/0AX4XfWh-code'' world0) = Inr token_body"
proof -
  let ?good = "\<lparr>resp_ok = True, resp_statusText = ''OK'', resp_json = Inr token_body\<rparr>"
  have issued: "issuing_endpoint sent req = Inr ?good" for sent req
    by (simp add: issuing_endpoint_def)
  have vals: "disk world0 = [(''.env'', ''CLIENT_ID=my-client-id'')]" "this world0 = helper0"
    "stdout world0 = []" "network world0 = []"
    by (simp_all add: world0_def)
  show ?thesis
    using token_operations_frame
      [of issuing_endpoint "''1//04-abc123def456''" world0 "''4/0AX4XfWh-code''" ?good ?good]
    by (simp add: issued vals)
qed

section \<open>The token cache\<close>

lemma acquireToken_world:
  "snd (acquireToken fetch now refreshToken w) =
     w\<lparr>network := network w @ [refresh_request (this w) refreshToken]\<rparr>"
  using refreshAccessToken_world [of fetch refreshToken w]
  by (cases "refreshAccessToken fetch refreshToken w")
     (auto simp: acquireToken_def split: sum.splits)

lemma renewToken_token:
  assumes "renewToken fetch now refreshToken cm = (Inr tok, cm')"
  shows "cache cm' (clientId (this (cm_world cm')), refreshToken) = Some tok"
    and "network (cm_world cm') =
      network (cm_world cm) @ [refresh_request (this (cm_world cm)) refreshToken]"
proof -
  obtain res w' where a: "acquireToken fetch now refreshToken (cm_world cm) = (res, w')"
    by (cases "acquireToken fetch now refreshToken (cm_world cm)")
  then have w': "w' = (cm_world cm)\<lparr>network := network (cm_world cm) @
      [refresh_request (this (cm_world cm)) refreshToken]\<rparr>"
    using acquireToken_world [of fetch now refreshToken "cm_world cm"] by simp
  from assms a have cm': "res = Inr tok"
    "cm' = cm\<lparr>cache := (cache cm)((clientId (this (cm_world cm)), refreshToken) \<mapsto> tok),
               cm_world := w'\<rparr>"
    by (auto simp: renewToken_def split: sum.splits)
  show "cache cm' (clientId (this (cm_world cm')), refreshToken) = Some tok"
    by (simp add: cm' w')
  show "network (cm_world cm') =
      network (cm_world cm) @ [refresh_request (this (cm_world cm)) refreshToken]"
    by (simp add: cm' w')
qed

text \<open>
  The helper on its own keeps no token: two refreshes in a row send two requests to the
  token endpoint.
\<close>

lemma helper_keeps_no_token:
  "network (snd (refreshAccessToken fetch token2 (snd (refreshAccessToken fetch token1 w)))) =
     network w @ [refresh_request (this w) token1, refresh_request (this w) token2]"
  by (simp add: refreshAccessToken_world)

text \<open>
  C6. When a first request for a token has been served and the expiry of that token is
  still more than the safety margin away at the time of a second request (same client,
  same refresh token), \<open>getValidToken\<close> returns the same token from the cache and sends
  nothing to the token endpoint: over the two requests the endpoint is called at most
  once.
\<close>

theorem cached_token_is_reused:
  assumes "getValidToken fetch margin t1 refreshToken cm0 = (Inr tok, cm1)"
    and "margin < expiry tok - t2"
  shows "getValidToken fetch margin t2 refreshToken cm1 = (Inr tok, cm1)
         \<and> length (network (cm_world (snd (getValidToken fetch margin t2 refreshToken cm1)))) \<le>
           length (network (cm_world cm0)) + 1"
proof -
  let ?key0 = "(clientId (this (cm_world cm0)), refreshToken)"
  have first: "cache cm1 (clientId (this (cm_world cm1)), refreshToken) = Some tok
      \<and> length (network (cm_world cm1)) \<le> length (network (cm_world cm0)) + 1"
  proof (cases "cache cm0 ?key0")
    case None
    with assms(1) have "renewToken fetch t1 refreshToken cm0 = (Inr tok, cm1)"
      by (simp add: getValidToken_def)
    then show ?thesis
      using renewToken_token [of fetch t1 refreshToken cm0 tok cm1] by simp
  next
    case (Some old)
    show ?thesis
    proof (cases "margin < expiry old - t1")
      case True
      with Some assms(1) have "old = tok" "cm1 = cm0"
        by (simp_all add: getValidToken_def)
      with Some show ?thesis by simp
    next
      case False
      with Some assms(1) have "renewToken fetch t1 refreshToken cm0 = (Inr tok, cm1)"
        by (simp add: getValidToken_def)
      then show ?thesis
        using renewToken_token [of fetch t1 refreshToken cm0 tok cm1] by simp
    qed
  qed
  with assms(2) have "getValidToken fetch margin t2 refreshToken cm1 = (Inr tok, cm1)"
    by (simp add: getValidToken_def)
  with first show ?thesis by simp
qed

theorem cached_token_is_reused_witness:
  "fst (getValidToken issuing_endpoint 60 1000 ''1//04-abc123def456'' manager0) = Inr token0
   \<and> fst (getValidToken issuing_endpoint 60 1500 ''1//04-abc123def456''
        (snd (getValidToken issuing_endpoint 60 1000 ''1//04-abc123def456'' manager0))) = Inr token0
   \<and> length (network (cm_world (snd (getValidToken issuing_endpoint 60 1500 ''1//04-abc123def456''
        (snd (getValidToken issuing_endpoint 60 1000 ''1//04-abc123def456'' manager0)))))) = 1"
proof -
  let ?rt = "''1//04-abc123def456''"
  let ?cm1 = "snd (getValidToken issuing_endpoint 60 1000 ?rt manager0)"
  have issued: "issuing_endpoint sent req =
      Inr \<lparr>resp_ok = True, resp_statusText = ''OK'', resp_json = Inr token_body\<rparr>" for sent req
    by (simp add: issuing_endpoint_def)
  have refresh: "refreshAccessToken issuing_endpoint ?rt w =
      (Inr token_body, w\<lparr>network := network w @ [refresh_request (this w) ?rt]\<rparr>)" for w
    by (simp add: refreshAccessToken_def Let_def issued)
  have payload: "token_of_payload 1000 ?rt token_body = Inr token0"
    by (simp add: token_of_payload_def token_body_def token0_def get_prop_def obj_get_def)
  have f1: "fst (getValidToken issuing_endpoint 60 1000 ?rt manager0) = Inr token0"
    by (simp add: getValidToken_def renewToken_def acquireToken_def manager0_def refresh payload)
  then have first: "getValidToken issuing_endpoint 60 1000 ?rt manager0 = (Inr token0, ?cm1)"
    by (simp add: prod_eq_iff)
  have net1: "length (network (cm_world ?cm1)) = 1"
    by (simp add: getValidToken_def renewToken_def acquireToken_def manager0_def refresh payload
        world0_def)
  have valid: "(60::int) < expiry token0 - 1500"
    by (simp add: token0_def)
  note reuse = cached_token_is_reused [OF first valid]
  have second: "getValidToken issuing_endpoint 60 1500 ?rt ?cm1 = (Inr token0, ?cm1)"
    using reuse by blast
  show ?thesis
    using f1 net1 by (simp add: second)
qed

text \<open>The cache is not kept forever: a token past the margin is acquired again.\<close>

lemma stale_token_is_renewed:
  "length (network (cm_world (snd (getValidToken issuing_endpoint 60 4600 ''1//04-abc123def456''
     (snd (getValidToken issuing_endpoint 60 1000 ''1//04-abc123def456'' manager0)))))) = 2"
proof -
  let ?rt = "''1//04-abc123def456''"
  have issued: "issuing_endpoint sent req =
      Inr \<lparr>resp_ok = True, resp_statusText = ''OK'', resp_json = Inr token_body\<rparr>" for sent req
    by (simp add: issuing_endpoint_def)
  have refresh: "refreshAccessToken issuing_endpoint ?rt w =
      (Inr token_body, w\<lparr>network := network w @ [refresh_request (this w) ?rt]\<rparr>)" for w
    by (simp add: refreshAccessToken_def Let_def issued)
  have payload: "token_of_payload now ?rt token_body =
      Inr (token0\<lparr>expiry := now + 3600\<rparr>)" for now
    by (simp add: token_of_payload_def token_body_def token0_def get_prop_def obj_get_def)
  show ?thesis
    by (simp add: getValidToken_def renewToken_def acquireToken_def manager0_def refresh payload
        world0_def token0_def)
qed

end
